theory Spec2Isabelle
  imports Complex_Main
begin

section \<open>Book review server: data model\<close>

text \<open>
  The server (the Express program embedded in \<^verbatim>\<open>setup.md\<close>) is a set of route handlers
  over a MySQL store. Each handler is embedded as a function from the request and the
  store to the response and the new store. A response is its HTTP status and its JSON body.

  Scope of the embedding.
  \<^item> Route parameters (\<^verbatim>\<open>req.params.id\<close>) are modelled by the row identifier they denote.
  \<^item> String fields of the body are \<open>string option\<close>, \<open>None\<close> for an absent field.
  \<^item> The \<^verbatim>\<open>rating\<close> field is any value \<^verbatim>\<open>express.json()\<close> can put there: absent,
    \<^verbatim>\<open>null\<close>, a boolean, a number, a string, an array or an object. A finite number is
    the rational it denotes. What the language and the driver do with a string or an
    array beyond what is written out below is a parameter (record \<open>runtime\<close>).
  \<^item> The store implements the schema of \<^verbatim>\<open>/init\<close>: auto-increment keys, the \<^verbatim>\<open>UNIQUE\<close>,
    \<^verbatim>\<open>FOREIGN KEY ... ON DELETE CASCADE\<close> and \<^verbatim>\<open>CHECK\<close> constraints. A statement that
    violates a constraint rejects, and the handler's \<^verbatim>\<open>catch\<close> answers 500. Column lengths,
    collations and loss of the connection are outside the embedding.
  \<^item> A table is the list of its rows in insertion order, which is the order of
    \<^verbatim>\<open>created_at\<close>.
  \<^item> \<^verbatim>\<open>AVG\<close> over an \<^verbatim>\<open>INT\<close> column is a decimal of four fractional digits, which the
    driver hands over as a number; that number is taken as the decimal it denotes.
  \<^item> \<^verbatim>\<open>bcryptjs\<close> and \<^verbatim>\<open>jsonwebtoken\<close> are parameters of the handlers (record \<open>services\<close>).
\<close>

text \<open>A number of the language: NaN, the two infinities (\<^verbatim>\<open>JSON.parse\<close> gives one for a
  literal beyond the range of a double) or a finite value.\<close>

datatype jsnum = NaN | NegInf | Fin rat | PosInf

datatype jsval = JUndefined | JNull | JBool bool | JNum jsnum | JStr string
  | JArr "jsval list" | JObj "(string \<times> jsval) list"

text \<open>The parts of the language and of the driver that are not written out:
  \<^item> \<open>StrNumericLiteral\<close>: the number a string denotes when it may be a numeric literal;
  \<^item> \<open>ArrayJoin\<close>: the string of a non-empty array (\<^verbatim>\<open>Array.prototype.join\<close>);
  \<^item> \<open>sql_other\<close>: the integer the store derives for an \<^verbatim>\<open>INT\<close> column from a string,
    array or object parameter, \<open>None\<close> when the statement is rejected.\<close>

record runtime =
  StrNumericLiteral :: "string \<Rightarrow> jsnum"
  ArrayJoin :: "jsval list \<Rightarrow> string"
  sql_other :: "jsval \<Rightarrow> int option"

text \<open>The coercions of the language that the validation \<^verbatim>\<open>!rating || rating < 1 || rating > 5\<close>
  applies. A comparison with NaN is false.\<close>

fun ToBoolean :: "jsval \<Rightarrow> bool" where
  "ToBoolean JUndefined = False"
| "ToBoolean JNull = False"
| "ToBoolean (JBool b) = b"
| "ToBoolean (JNum n) = (n \<noteq> NaN \<and> n \<noteq> Fin 0)"
| "ToBoolean (JStr s) = (s \<noteq> [])"
| "ToBoolean (JArr xs) = True"
| "ToBoolean (JObj kvs) = True"

text \<open>\<open>StringToNumber\<close>: white space is stripped; the empty string is 0; a string that
  starts with a character no numeric literal starts with (not a digit, a sign, a point
  or the \<^verbatim>\<open>I\<close> of \<^verbatim>\<open>Infinity\<close>) is NaN. The white space written out is the ASCII one;
  a string whose first other character is outside ASCII is left to the parameter.\<close>

definition is_space :: "char \<Rightarrow> bool" where
  "is_space c \<longleftrightarrow> c \<in> set [CHR 0x09, CHR 0x0A, CHR 0x0B, CHR 0x0C, CHR 0x0D, CHR 0x20]"

definition StringToNumber :: "runtime \<Rightarrow> string \<Rightarrow> jsnum" where
  "StringToNumber J s =
     (case dropWhile is_space s of
        [] \<Rightarrow> Fin 0
      | c # _ \<Rightarrow>
          if \<not> digit7 c \<and> c \<notin> set ''0123456789+-.I'' then NaN
          else StrNumericLiteral J s)"

text \<open>An array or object becomes a primitive through \<^verbatim>\<open>toString\<close>: the empty array is
  the empty string, an object parsed from JSON is \<^verbatim>\<open>[object Object]\<close>.\<close>

fun ToNumber :: "runtime \<Rightarrow> jsval \<Rightarrow> jsnum" where
  "ToNumber J JUndefined = NaN"
| "ToNumber J JNull = Fin 0"
| "ToNumber J (JBool b) = Fin (if b then 1 else 0)"
| "ToNumber J (JNum n) = n"
| "ToNumber J (JStr s) = StringToNumber J s"
| "ToNumber J (JArr xs) = StringToNumber J (if xs = [] then [] else ArrayJoin J xs)"
| "ToNumber J (JObj kvs) = StringToNumber J ''[object Object]''"

fun num_lt :: "jsnum \<Rightarrow> rat \<Rightarrow> bool" where
  "num_lt NaN n = False"
| "num_lt NegInf n = True"
| "num_lt (Fin x) n = (x < n)"
| "num_lt PosInf n = False"

fun num_gt :: "jsnum \<Rightarrow> rat \<Rightarrow> bool" where
  "num_gt NaN n = False"
| "num_gt NegInf n = False"
| "num_gt (Fin x) n = (n < x)"
| "num_gt PosInf n = True"

definition js_lt :: "runtime \<Rightarrow> jsval \<Rightarrow> rat \<Rightarrow> bool" where
  "js_lt J v n = num_lt (ToNumber J v) n"

definition js_gt :: "runtime \<Rightarrow> jsval \<Rightarrow> rat \<Rightarrow> bool" where
  "js_gt J v n = num_gt (ToNumber J v) n"

text \<open>\<^verbatim>\<open>!s\<close> for a string field: absent or empty.\<close>

fun falsy :: "string option \<Rightarrow> bool" where
  "falsy None = True"
| "falsy (Some s) = (s = [])"

subsection \<open>Rows of the five tables\<close>

record user_row =
  u_id :: nat
  u_name :: string
  u_email :: string
  u_password :: string
  u_role :: string

record book_row =
  b_id :: nat
  b_title :: string
  b_author :: string
  b_isbn :: "string option"
  b_description :: "string option"
  b_published_year :: "int option"
  b_genre :: "string option"
  b_cover_image :: "string option"

record review_row =
  r_id :: nat
  r_book_id :: nat
  r_user_id :: nat
  r_rating :: int
  r_review_text :: "string option"

record comment_row =
  cm_id :: nat
  cm_review_id :: nat
  cm_user_id :: nat
  cm_comment_text :: string

record image_row =
  i_id :: nat
  i_review_id :: nat
  i_image_url :: string
  i_image_name :: "string option"

text \<open>The store: the tables and the auto-increment counter of each table that the
  handlers insert into.\<close>

record db =
  users :: "user_row list"
  books :: "book_row list"
  reviews :: "review_row list"
  comments :: "comment_row list"
  images :: "image_row list"
  next_user :: nat
  next_book :: nat
  next_review :: nat
  next_image :: nat

subsection \<open>Requests and responses\<close>

text \<open>The payload of a token, \<^verbatim>\<open>{ id, email, name, role }\<close>, which \<open>verifyToken\<close> stores in
  \<^verbatim>\<open>req.user\<close>. The \<^verbatim>\<open>user\<close> object of the register and login responses has the same four
  fields.\<close>

record claims =
  c_id :: nat
  c_email :: string
  c_name :: string
  c_role :: string

record services =
  bcrypt_hash :: "string \<Rightarrow> string"
  bcrypt_compare :: "string \<Rightarrow> string \<Rightarrow> bool"
  jwt_sign :: "claims \<Rightarrow> string"
  jwt_verify :: "string \<Rightarrow> claims option"

record review_view =
  v_review :: review_row
  v_user_name :: string
  v_user_email :: string
  v_comment_count :: nat
  v_images :: "image_row list"

datatype json =
  Error string
  | Message string
  | MessageId string nat
  | Session string string claims
  | Users "claims list"
  | TotalReviews nat
  | BookDetail book_row "review_view list" rat nat

type_synonym response = "nat \<times> json"

text \<open>The fields \<^verbatim>\<open>average_rating\<close> and \<^verbatim>\<open>total_reviews\<close> of a body.\<close>

fun average_rating :: "json \<Rightarrow> rat option" where
  "average_rating (BookDetail book rs a t) = Some a"
| "average_rating other = None"

fun total_reviews :: "json \<Rightarrow> nat option" where
  "total_reviews (BookDetail book rs a t) = Some t"
| "total_reviews other = None"

record register_body =
  reg_name :: "string option"
  reg_email :: "string option"
  reg_password :: "string option"

record login_body =
  login_email :: "string option"
  login_password :: "string option"

record profile_body =
  prof_name :: "string option"
  prof_email :: "string option"

record book_body =
  bk_title :: "string option"
  bk_author :: "string option"
  bk_isbn :: "string option"
  bk_description :: "string option"
  bk_published_year :: "int option"
  bk_genre :: "string option"
  bk_cover_image :: "string option"

record review_body =
  rv_rating :: jsval
  rv_review_text :: "string option"

record image_body =
  im_image_url :: "string option"
  im_image_name :: "string option"

section \<open>The store's statements\<close>

text \<open>A number written into an \<^verbatim>\<open>INT\<close> column, and the last digit of a decimal result, is
  rounded half away from zero.\<close>

definition sql_round :: "rat \<Rightarrow> int" where
  "sql_round x = (if 0 \<le> x then \<lfloor>x + 1 / 2\<rfloor> else - \<lfloor>- x + 1 / 2\<rfloor>)"

text \<open>\<^verbatim>\<open>AVG(rating)\<close> over \<^verbatim>\<open>rating INT\<close>: \<^verbatim>\<open>NULL\<close> over no rows, else the quotient of the
  sum by the count as a decimal of four fractional digits.\<close>

definition sql_avg :: "int list \<Rightarrow> rat option" where
  "sql_avg xs =
     (if xs = [] then None
      else Some (of_int (sql_round (of_int (sum_list xs) * 10000 / of_nat (length xs))) / 10000))"

text \<open>\<^verbatim>\<open>x || 0\<close> on the nullable number of an aggregate.\<close>

fun or_zero :: "rat option \<Rightarrow> rat" where
  "or_zero None = 0"
| "or_zero (Some x) = (if x = 0 then 0 else x)"

text \<open>The value of a parameter in an \<^verbatim>\<open>INT\<close> column: \<^verbatim>\<open>undefined\<close> and \<^verbatim>\<open>null\<close> are
  \<^verbatim>\<open>NULL\<close>, \<^verbatim>\<open>true\<close> and \<^verbatim>\<open>false\<close> are 1 and 0, a finite number is rounded; NaN and the
  infinities are escaped to a word that is no value, so the statement is rejected.\<close>

fun sql_int :: "runtime \<Rightarrow> jsval \<Rightarrow> int option" where
  "sql_int J JUndefined = None"
| "sql_int J JNull = None"
| "sql_int J (JBool b) = Some (if b then 1 else 0)"
| "sql_int J (JNum (Fin x)) = Some (sql_round x)"
| "sql_int J (JNum n) = None"
| "sql_int J v = sql_other J v"

text \<open>\<^verbatim>\<open>INSERT INTO reviews (book_id, user_id, rating, review_text)\<close> under the constraints of
  the table: both foreign keys, \<^verbatim>\<open>rating INT NOT NULL CHECK (rating >= 1 AND rating <= 5)\<close>
  and \<^verbatim>\<open>UNIQUE (user_id, book_id)\<close>. \<open>None\<close> is a rejected statement.\<close>

definition insert_review ::
  "runtime \<Rightarrow> nat \<Rightarrow> nat \<Rightarrow> jsval \<Rightarrow> string option \<Rightarrow> db \<Rightarrow> (nat \<times> db) option" where
  "insert_review J bid uid rating text d =
     (case sql_int J rating of
        None \<Rightarrow> None
      | Some n \<Rightarrow>
          if n < 1 \<or> 5 < n then None
          else if \<not> (\<exists>b \<in> set (books d). b_id b = bid) then None
          else if \<not> (\<exists>u \<in> set (users d). u_id u = uid) then None
          else if (\<exists>r \<in> set (reviews d). r_user_id r = uid \<and> r_book_id r = bid) then None
          else Some (next_review d,
                 d\<lparr>reviews := reviews d @
                      [\<lparr>r_id = next_review d, r_book_id = bid, r_user_id = uid,
                        r_rating = n, r_review_text = text\<rparr>],
                   next_review := Suc (next_review d)\<rparr>))"

text \<open>\<^verbatim>\<open>UPDATE reviews SET rating = ?, review_text = ? WHERE id = ?\<close>.\<close>

definition update_review ::
  "runtime \<Rightarrow> nat \<Rightarrow> jsval \<Rightarrow> string option \<Rightarrow> db \<Rightarrow> db option" where
  "update_review J rid rating text d =
     (case sql_int J rating of
        None \<Rightarrow> if (\<exists>r \<in> set (reviews d). r_id r = rid) then None else Some d
      | Some n \<Rightarrow>
          if (n < 1 \<or> 5 < n) \<and> (\<exists>r \<in> set (reviews d). r_id r = rid) then None
          else Some (d\<lparr>reviews :=
                 map (\<lambda>r. if r_id r = rid then r\<lparr>r_rating := n, r_review_text := text\<rparr> else r)
                   (reviews d)\<rparr>))"

text \<open>\<^verbatim>\<open>DELETE FROM reviews WHERE id = ?\<close>, with the cascade to comments and images.\<close>

definition delete_review :: "nat \<Rightarrow> db \<Rightarrow> db" where
  "delete_review rid d =
     d\<lparr>reviews := filter (\<lambda>r. r_id r \<noteq> rid) (reviews d),
       comments := filter (\<lambda>c. cm_review_id c \<noteq> rid) (comments d),
       images := filter (\<lambda>i. i_review_id i \<noteq> rid) (images d)\<rparr>"

text \<open>\<^verbatim>\<open>DELETE FROM books WHERE id = ?\<close>, with the cascade to the book's reviews and from
  them to their comments and images.\<close>

definition delete_book :: "nat \<Rightarrow> db \<Rightarrow> db" where
  "delete_book bid d =
     (let gone = map r_id (filter (\<lambda>r. r_book_id r = bid) (reviews d))
      in d\<lparr>books := filter (\<lambda>b. b_id b \<noteq> bid) (books d),
           reviews := filter (\<lambda>r. r_book_id r \<noteq> bid) (reviews d),
           comments := filter (\<lambda>c. cm_review_id c \<notin> set gone) (comments d),
           images := filter (\<lambda>i. i_review_id i \<notin> set gone) (images d)\<rparr>)"

text \<open>\<^verbatim>\<open>INSERT INTO books\<close> and \<^verbatim>\<open>UPDATE books ... WHERE id = ?\<close> under \<^verbatim>\<open>isbn UNIQUE\<close>
  (\<^verbatim>\<open>NULL\<close> is never a duplicate).\<close>

definition book_of_body :: "nat \<Rightarrow> string \<Rightarrow> string \<Rightarrow> book_body \<Rightarrow> book_row" where
  "book_of_body i title author b =
     \<lparr>b_id = i, b_title = title, b_author = author, b_isbn = bk_isbn b,
      b_description = bk_description b, b_published_year = bk_published_year b,
      b_genre = bk_genre b, b_cover_image = bk_cover_image b\<rparr>"

definition isbn_taken :: "string option \<Rightarrow> book_row list \<Rightarrow> bool" where
  "isbn_taken i bs = (case i of None \<Rightarrow> False | Some s \<Rightarrow> \<exists>b \<in> set bs. b_isbn b = Some s)"

definition insert_book :: "string \<Rightarrow> string \<Rightarrow> book_body \<Rightarrow> db \<Rightarrow> (nat \<times> db) option" where
  "insert_book title author b d =
     (if isbn_taken (bk_isbn b) (books d) then None
      else Some (next_book d,
             d\<lparr>books := books d @ [book_of_body (next_book d) title author b],
               next_book := Suc (next_book d)\<rparr>))"

definition update_book :: "nat \<Rightarrow> string \<Rightarrow> string \<Rightarrow> book_body \<Rightarrow> db \<Rightarrow> db option" where
  "update_book bid title author b d =
     (if (\<exists>x \<in> set (books d). b_id x = bid)
         \<and> isbn_taken (bk_isbn b) (filter (\<lambda>x. b_id x \<noteq> bid) (books d)) then None
      else Some (d\<lparr>books :=
             map (\<lambda>x. if b_id x = bid then book_of_body bid title author b else x) (books d)\<rparr>))"

text \<open>\<^verbatim>\<open>INSERT INTO images (review_id, image_url, image_name)\<close> under the foreign key.\<close>

definition insert_image :: "nat \<Rightarrow> string \<Rightarrow> string option \<Rightarrow> db \<Rightarrow> (nat \<times> db) option" where
  "insert_image rid url nm d =
     (if \<not> (\<exists>r \<in> set (reviews d). r_id r = rid) then None
      else Some (next_image d,
             d\<lparr>images := images d @
                  [\<lparr>i_id = next_image d, i_review_id = rid, i_image_url = url, i_image_name = nm\<rparr>],
               next_image := Suc (next_image d)\<rparr>))"

text \<open>\<^verbatim>\<open>INSERT INTO users (name, email, password)\<close>: the role takes the column's default
  \<^verbatim>\<open>'user'\<close>; \<^verbatim>\<open>email UNIQUE\<close>.\<close>

definition insert_user :: "string \<Rightarrow> string \<Rightarrow> string \<Rightarrow> db \<Rightarrow> (nat \<times> db) option" where
  "insert_user nm em pw d =
     (if (\<exists>u \<in> set (users d). u_email u = em) then None
      else Some (next_user d,
             d\<lparr>users := users d @
                  [\<lparr>u_id = next_user d, u_name = nm, u_email = em, u_password = pw,
                    u_role = ''user''\<rparr>],
               next_user := Suc (next_user d)\<rparr>))"

text \<open>\<^verbatim>\<open>UPDATE users SET name = ?, email = ? WHERE id = ?\<close> under \<^verbatim>\<open>email UNIQUE\<close>.\<close>

definition update_user :: "nat \<Rightarrow> string \<Rightarrow> string \<Rightarrow> db \<Rightarrow> db option" where
  "update_user uid nm em d =
     (if (\<exists>u \<in> set (users d). u_id u = uid)
         \<and> (\<exists>u \<in> set (users d). u_id u \<noteq> uid \<and> u_email u = em) then None
      else Some (d\<lparr>users :=
             map (\<lambda>u. if u_id u = uid then u\<lparr>u_name := nm, u_email := em\<rparr> else u) (users d)\<rparr>))"

section \<open>The handlers\<close>

subsection \<open>verifyToken\<close>

text \<open>The middleware reads \<^verbatim>\<open>req.headers.authorization\<close> (\<open>None\<close> when the request has no
  such header), answers 401 itself or calls \<open>next\<close> with the decoded payload in
  \<^verbatim>\<open>req.user\<close>. \<^verbatim>\<open>jwt.verify\<close> throwing is \<open>None\<close>.\<close>

definition verifyToken ::
  "services \<Rightarrow> string option \<Rightarrow> (claims \<Rightarrow> db \<Rightarrow> response \<times> db) \<Rightarrow> db \<Rightarrow> response \<times> db" where
  "verifyToken K authHeader next d =
     (if falsy authHeader then ((401, Error ''Access token required''), d)
      else case authHeader of
        None \<Rightarrow> ((401, Error ''Access token required''), d)
      | Some token \<Rightarrow>
          (case jwt_verify K token of
             None \<Rightarrow> ((401, Error ''Invalid token''), d)
           | Some decoded \<Rightarrow> next decoded d))"

subsection \<open>Users\<close>

definition register :: "services \<Rightarrow> register_body \<Rightarrow> db \<Rightarrow> response \<times> db" where
  "register K body d =
     (case (reg_name body, reg_email body, reg_password body) of
        (Some name, Some email, Some password) \<Rightarrow>
          if name = [] \<or> email = [] \<or> password = []
          then ((400, Error ''All fields are required''), d)
          else if filter (\<lambda>u. u_email u = email) (users d) \<noteq> []
          then ((400, Error ''User already exists''), d)
          else (case insert_user name email (bcrypt_hash K password) d of
                  None \<Rightarrow> ((500, Error ''Failed to register user''), d)
                | Some (insertId, d') \<Rightarrow>
                    ((201, Session ''User registered successfully''
                        (jwt_sign K \<lparr>c_id = insertId, c_email = email, c_name = name,
                                     c_role = ''user''\<rparr>)
                        \<lparr>c_id = insertId, c_email = email, c_name = name, c_role = ''user''\<rparr>),
                     d'))
      | _ \<Rightarrow> ((400, Error ''All fields are required''), d))"

definition login :: "services \<Rightarrow> login_body \<Rightarrow> db \<Rightarrow> response \<times> db" where
  "login K body d =
     (case (login_email body, login_password body) of
        (Some email, Some password) \<Rightarrow>
          if email = [] \<or> password = []
          then ((400, Error ''Email and password are required''), d)
          else (case filter (\<lambda>u. u_email u = email) (users d) of
                  [] \<Rightarrow> ((401, Error ''Invalid credentials''), d)
                | user # _ \<Rightarrow>
                    if \<not> bcrypt_compare K password (u_password user)
                    then ((401, Error ''Invalid credentials''), d)
                    else ((200, Session ''Login successful''
                             (jwt_sign K \<lparr>c_id = u_id user, c_email = u_email user,
                                          c_name = u_name user, c_role = u_role user\<rparr>)
                             \<lparr>c_id = u_id user, c_email = u_email user,
                              c_name = u_name user, c_role = u_role user\<rparr>),
                          d))
      | _ \<Rightarrow> ((400, Error ''Email and password are required''), d))"

definition updateProfile :: "profile_body \<Rightarrow> claims \<Rightarrow> db \<Rightarrow> response \<times> db" where
  "updateProfile body user d =
     (case (prof_name body, prof_email body) of
        (Some name, Some email) \<Rightarrow>
          if name = [] \<or> email = []
          then ((400, Error ''Name and email are required''), d)
          else if filter (\<lambda>u. u_email u = email \<and> u_id u \<noteq> c_id user) (users d) \<noteq> []
          then ((400, Error ''Email already taken''), d)
          else (case update_user (c_id user) name email d of
                  None \<Rightarrow> ((500, Error ''Failed to update profile''), d)
                | Some d' \<Rightarrow> ((200, Message ''Profile updated successfully''), d'))
      | _ \<Rightarrow> ((400, Error ''Name and email are required''), d))"

definition getUsers :: "claims \<Rightarrow> db \<Rightarrow> response \<times> db" where
  "getUsers user d =
     (if c_role user \<noteq> ''admin''
      then ((403, Error ''Access denied. Admin privileges required.''), d)
      else ((200, Users (rev (map (\<lambda>u. \<lparr>c_id = u_id u, c_email = u_email u, c_name = u_name u,
                                        c_role = u_role u\<rparr>) (users d)))), d))"

definition getReviewsCount :: "claims \<Rightarrow> db \<Rightarrow> response \<times> db" where
  "getReviewsCount user d =
     (if c_role user \<noteq> ''admin''
      then ((403, Error ''Access denied. Admin privileges required.''), d)
      else ((200, TotalReviews (length (reviews d))), d))"

subsection \<open>Books\<close>

definition getBookDetail :: "nat \<Rightarrow> db \<Rightarrow> response \<times> db" where
  "getBookDetail i d =
     (case filter (\<lambda>b. b_id b = i) (books d) of
        [] \<Rightarrow> ((404, Error ''Book not found''), d)
      | book # _ \<Rightarrow>
          (let rs = rev (concat (map (\<lambda>r. map (\<lambda>u.
                      \<lparr>v_review = r, v_user_name = u_name u, v_user_email = u_email u,
                       v_comment_count = length (filter (\<lambda>c. cm_review_id c = r_id r) (comments d)),
                       v_images = filter (\<lambda>im. i_review_id im = r_id r) (images d)\<rparr>)
                      (filter (\<lambda>u. u_id u = r_user_id r) (users d)))
                    (filter (\<lambda>r. r_book_id r = i) (reviews d))));
               ratings = map r_rating (filter (\<lambda>r. r_book_id r = i) (reviews d));
               average_rating = sql_avg ratings;
               total_reviews = length ratings
           in ((200, BookDetail book rs (or_zero average_rating)
                       (if total_reviews = 0 then 0 else total_reviews)), d)))"

definition createBook :: "book_body \<Rightarrow> claims \<Rightarrow> db \<Rightarrow> response \<times> db" where
  "createBook body user d =
     (if c_role user \<noteq> ''admin''
      then ((403, Error ''Access denied. Admin privileges required.''), d)
      else case (bk_title body, bk_author body) of
        (Some title, Some author) \<Rightarrow>
          if title = [] \<or> author = []
          then ((400, Error ''Title and author are required''), d)
          else (case insert_book title author body d of
                  None \<Rightarrow> ((500, Error ''Failed to create book''), d)
                | Some (insertId, d') \<Rightarrow> ((201, MessageId ''Book created successfully'' insertId), d'))
      | _ \<Rightarrow> ((400, Error ''Title and author are required''), d))"

definition updateBook :: "nat \<Rightarrow> book_body \<Rightarrow> claims \<Rightarrow> db \<Rightarrow> response \<times> db" where
  "updateBook i body user d =
     (if c_role user \<noteq> ''admin''
      then ((403, Error ''Access denied. Admin privileges required.''), d)
      else case (bk_title body, bk_author body) of
        (Some title, Some author) \<Rightarrow>
          if title = [] \<or> author = []
          then ((400, Error ''Title and author are required''), d)
          else if filter (\<lambda>b. b_id b = i) (books d) = []
          then ((404, Error ''Book not found''), d)
          else (case update_book i title author body d of
                  None \<Rightarrow> ((500, Error ''Failed to update book''), d)
                | Some d' \<Rightarrow> ((200, Message ''Book updated successfully''), d'))
      | _ \<Rightarrow> ((400, Error ''Title and author are required''), d))"

definition deleteBook :: "nat \<Rightarrow> claims \<Rightarrow> db \<Rightarrow> response \<times> db" where
  "deleteBook i user d =
     (if c_role user \<noteq> ''admin''
      then ((403, Error ''Access denied. Admin privileges required.''), d)
      else if filter (\<lambda>b. b_id b = i) (books d) = []
      then ((404, Error ''Book not found''), d)
      else ((200, Message ''Book deleted successfully''), delete_book i d))"

subsection \<open>Reviews\<close>

definition createReview ::
  "runtime \<Rightarrow> nat \<Rightarrow> review_body \<Rightarrow> claims \<Rightarrow> db \<Rightarrow> response \<times> db" where
  "createReview J i body user d =
     (let rating = rv_rating body; review_text = rv_review_text body
      in if \<not> ToBoolean rating \<or> js_lt J rating 1 \<or> js_gt J rating 5
         then ((400, Error ''Rating must be between 1 and 5''), d)
         else if filter (\<lambda>b. b_id b = i) (books d) = []
         then ((404, Error ''Book not found''), d)
         else if filter (\<lambda>r. r_book_id r = i \<and> r_user_id r = c_id user) (reviews d) \<noteq> []
         then ((400, Error ''You have already reviewed this book''), d)
         else (case insert_review J i (c_id user) rating review_text d of
                 None \<Rightarrow> ((500, Error ''Failed to create review''), d)
               | Some (insertId, d') \<Rightarrow>
                   ((201, MessageId ''Review created successfully'' insertId), d')))"

definition updateReview ::
  "runtime \<Rightarrow> nat \<Rightarrow> review_body \<Rightarrow> claims \<Rightarrow> db \<Rightarrow> response \<times> db" where
  "updateReview J i body user d =
     (let rating = rv_rating body; review_text = rv_review_text body
      in if \<not> ToBoolean rating \<or> js_lt J rating 1 \<or> js_gt J rating 5
         then ((400, Error ''Rating must be between 1 and 5''), d)
         else case filter (\<lambda>r. r_id r = i) (reviews d) of
           [] \<Rightarrow> ((404, Error ''Review not found''), d)
         | review # _ \<Rightarrow>
             if r_user_id review \<noteq> c_id user \<and> c_role user \<noteq> ''admin''
             then ((403, Error ''You can only edit your own reviews''), d)
             else (case update_review J i rating review_text d of
                     None \<Rightarrow> ((500, Error ''Failed to update review''), d)
                   | Some d' \<Rightarrow> ((200, Message ''Review updated successfully''), d')))"

definition deleteReview :: "nat \<Rightarrow> claims \<Rightarrow> db \<Rightarrow> response \<times> db" where
  "deleteReview i user d =
     (case filter (\<lambda>r. r_id r = i) (reviews d) of
        [] \<Rightarrow> ((404, Error ''Review not found''), d)
      | review # _ \<Rightarrow>
          if r_user_id review \<noteq> c_id user \<and> c_role user \<noteq> ''admin''
          then ((403, Error ''You can only delete your own reviews''), d)
          else ((200, Message ''Review deleted successfully''), delete_review i d))"

subsection \<open>Images\<close>

definition addImage :: "nat \<Rightarrow> image_body \<Rightarrow> claims \<Rightarrow> db \<Rightarrow> response \<times> db" where
  "addImage i body user d =
     (case im_image_url body of
        None \<Rightarrow> ((400, Error ''Image URL is required''), d)
      | Some image_url \<Rightarrow>
          if image_url = [] then ((400, Error ''Image URL is required''), d)
          else (case filter (\<lambda>r. r_id r = i) (reviews d) of
                  [] \<Rightarrow> ((404, Error ''Review not found''), d)
                | review # _ \<Rightarrow>
                    if r_user_id review \<noteq> c_id user \<and> c_role user \<noteq> ''admin''
                    then ((403, Error ''You can only add images to your own reviews''), d)
                    else (case insert_image i image_url (im_image_name body) d of
                            None \<Rightarrow> ((500, Error ''Failed to add image''), d)
                          | Some (insertId, d') \<Rightarrow>
                              ((201, MessageId ''Image added successfully'' insertId), d'))))"

text \<open>\<^verbatim>\<open>review[0].user_id\<close> on an empty result throws a TypeError, which the handler's
  \<^verbatim>\<open>catch\<close> answers with 500.\<close>

definition deleteImage :: "nat \<Rightarrow> claims \<Rightarrow> db \<Rightarrow> response \<times> db" where
  "deleteImage i user d =
     (case filter (\<lambda>im. i_id im = i) (images d) of
        [] \<Rightarrow> ((404, Error ''Image not found''), d)
      | img # _ \<Rightarrow>
          (case filter (\<lambda>r. r_id r = i_review_id img) (reviews d) of
             [] \<Rightarrow> ((500, Error ''Failed to delete image''), d)
           | review # _ \<Rightarrow>
               if r_user_id review \<noteq> c_id user \<and> c_role user \<noteq> ''admin''
               then ((403, Error ''You can only delete images from your own reviews''), d)
               else ((200, Message ''Image deleted successfully''),
                     d\<lparr>images := filter (\<lambda>im. i_id im \<noteq> i) (images d)\<rparr>)))"

subsection \<open>The routes behind verifyToken\<close>

text \<open>\<^verbatim>\<open>app.METHOD(path, verifyToken, handler)\<close> for the routes the properties below are
  about. A request is its authorization header, its route parameter and its body.\<close>

definition route_getUsers :: "services \<Rightarrow> string option \<Rightarrow> db \<Rightarrow> response \<times> db" where
  "route_getUsers K h = verifyToken K h getUsers"

definition route_getReviewsCount :: "services \<Rightarrow> string option \<Rightarrow> db \<Rightarrow> response \<times> db" where
  "route_getReviewsCount K h = verifyToken K h getReviewsCount"

definition route_createBook :: "services \<Rightarrow> string option \<Rightarrow> book_body \<Rightarrow> db \<Rightarrow> response \<times> db" where
  "route_createBook K h body = verifyToken K h (createBook body)"

definition route_updateBook ::
  "services \<Rightarrow> string option \<Rightarrow> nat \<Rightarrow> book_body \<Rightarrow> db \<Rightarrow> response \<times> db" where
  "route_updateBook K h i body = verifyToken K h (updateBook i body)"

definition route_deleteBook :: "services \<Rightarrow> string option \<Rightarrow> nat \<Rightarrow> db \<Rightarrow> response \<times> db" where
  "route_deleteBook K h i = verifyToken K h (deleteBook i)"

section \<open>The constraints of the schema\<close>

text \<open>The keys: \<^verbatim>\<open>PRIMARY KEY\<close> with \<^verbatim>\<open>AUTO_INCREMENT\<close> on users, reviews and images (the ids
  are distinct and below the table's counter) and \<^verbatim>\<open>UNIQUE\<close> on \<^verbatim>\<open>users.email\<close>.\<close>

definition keys_ok :: "db \<Rightarrow> bool" where
  "keys_ok d \<longleftrightarrow>
     distinct (map u_id (users d)) \<and> (\<forall>u \<in> set (users d). u_id u < next_user d)
   \<and> distinct (map u_email (users d))
   \<and> distinct (map r_id (reviews d)) \<and> (\<forall>r \<in> set (reviews d). r_id r < next_review d)
   \<and> distinct (map i_id (images d)) \<and> (\<forall>x \<in> set (images d). i_id x < next_image d)"

text \<open>The references: the foreign keys of reviews, images and comments, the \<^verbatim>\<open>CHECK\<close> on
  the rating and \<^verbatim>\<open>UNIQUE (user_id, book_id)\<close> on reviews.\<close>

definition refs_ok :: "db \<Rightarrow> bool" where
  "refs_ok d \<longleftrightarrow>
     (\<forall>r \<in> set (reviews d).
        (\<exists>b \<in> set (books d). b_id b = r_book_id r)
      \<and> (\<exists>u \<in> set (users d). u_id u = r_user_id r)
      \<and> 1 \<le> r_rating r \<and> r_rating r \<le> 5)
   \<and> distinct (map (\<lambda>r. (r_user_id r, r_book_id r)) (reviews d))
   \<and> (\<forall>x \<in> set (images d). \<exists>r \<in> set (reviews d). r_id r = i_review_id x)
   \<and> (\<forall>c \<in> set (comments d).
        (\<exists>r \<in> set (reviews d). r_id r = cm_review_id c)
      \<and> (\<exists>u \<in> set (users d). u_id u = cm_user_id c))"

section \<open>A small store and its services\<close>

text \<open>An instance on which the handlers are evaluated: the administrator of \<^verbatim>\<open>/init\<close> and
  two users, two books, the three reviews 5, 3 and 4 of the first book, one comment and
  one image on the second review. Its services hash by prefixing and sign by naming the
  holder's email.\<close>

definition example_db :: db where
  "example_db =
     \<lparr>users =
        [\<lparr>u_id = 1, u_name = ''Admin User'', u_email = ''admin@example.com'',
          u_password = ''$2a$10$admin123'', u_role = ''admin''\<rparr>,
         \<lparr>u_id = 2, u_name = ''Alice'', u_email = ''alice@example.com'',
          u_password = ''$2a$10$alicepw'', u_role = ''user''\<rparr>,
         \<lparr>u_id = 3, u_name = ''Bob'', u_email = ''bob@example.com'',
          u_password = ''$2a$10$bobpw'', u_role = ''user''\<rparr>],
      books =
        [\<lparr>b_id = 1, b_title = ''The Great Gatsby'', b_author = ''F. Scott Fitzgerald'',
          b_isbn = Some ''978-0743273565'', b_description = None,
          b_published_year = Some 1925, b_genre = Some ''Classic Fiction'',
          b_cover_image = None\<rparr>,
         \<lparr>b_id = 2, b_title = ''1984'', b_author = ''George Orwell'',
          b_isbn = Some ''978-0451524935'', b_description = None,
          b_published_year = Some 1949, b_genre = Some ''Science Fiction'',
          b_cover_image = None\<rparr>],
      reviews =
        [\<lparr>r_id = 1, r_book_id = 1, r_user_id = 1, r_rating = 5, r_review_text = None\<rparr>,
         \<lparr>r_id = 2, r_book_id = 1, r_user_id = 2, r_rating = 3,
          r_review_text = Some ''Slow start''\<rparr>,
         \<lparr>r_id = 3, r_book_id = 1, r_user_id = 3, r_rating = 4, r_review_text = None\<rparr>],
      comments =
        [\<lparr>cm_id = 1, cm_review_id = 2, cm_user_id = 3, cm_comment_text = ''Agreed''\<rparr>],
      images =
        [\<lparr>i_id = 1, i_review_id = 2, i_image_url = ''https://example.com/cover.png'',
          i_image_name = Some ''Review Image''\<rparr>],
      next_user = 4, next_book = 3, next_review = 4, next_image = 2\<rparr>"

definition admin_claims :: claims where
  "admin_claims =
     \<lparr>c_id = 1, c_email = ''admin@example.com'', c_name = ''Admin User'', c_role = ''admin''\<rparr>"

definition alice_claims :: claims where
  "alice_claims =
     \<lparr>c_id = 2, c_email = ''alice@example.com'', c_name = ''Alice'', c_role = ''user''\<rparr>"

definition bob_claims :: claims where
  "bob_claims =
     \<lparr>c_id = 3, c_email = ''bob@example.com'', c_name = ''Bob'', c_role = ''user''\<rparr>"

definition dave_claims :: claims where
  "dave_claims =
     \<lparr>c_id = 4, c_email = ''dave@example.com'', c_name = ''Dave'', c_role = ''user''\<rparr>"

definition example_services :: services where
  "example_services =
     \<lparr>bcrypt_hash = (\<lambda>p. ''$2a$10$'' @ p),
      bcrypt_compare = (\<lambda>p h. h = ''$2a$10$'' @ p),
      jwt_sign = (\<lambda>c. ''jwt.'' @ c_email c),
      jwt_verify = (\<lambda>t. if t = ''jwt.admin@example.com'' then Some admin_claims
                        else if t = ''jwt.alice@example.com'' then Some alice_claims
                        else if t = ''jwt.bob@example.com'' then Some bob_claims
                        else if t = ''jwt.dave@example.com'' then Some dave_claims
                        else None)\<rparr>"

text \<open>The same store with the ratings 5, 4 and 4 on the first book.\<close>

definition example_db_544 :: db where
  "example_db_544 =
     example_db\<lparr>reviews :=
       [\<lparr>r_id = 1, r_book_id = 1, r_user_id = 1, r_rating = 5, r_review_text = None\<rparr>,
        \<lparr>r_id = 2, r_book_id = 1, r_user_id = 2, r_rating = 4, r_review_text = None\<rparr>,
        \<lparr>r_id = 3, r_book_id = 1, r_user_id = 3, r_rating = 4, r_review_text = None\<rparr>]\<rparr>"


section \<open>Properties\<close>

text \<open>A query by a key column with distinct values (\<^verbatim>\<open>PRIMARY KEY\<close>, \<^verbatim>\<open>UNIQUE\<close>) returns
  exactly the row that carries the key.\<close>

lemma select_by_key:
  "distinct (map f xs) \<Longrightarrow> x \<in> set xs \<Longrightarrow> filter (\<lambda>y. f y = f x) xs = [x]"
proof (induction xs)
  case Nil
  then show ?case by simp
next
  case (Cons a xs)
  show ?case
  proof (cases "a = x")
    case True
    with Cons.prems have "\<forall>y \<in> set xs. f y \<noteq> f x"
      by (auto simp: image_iff)
    then have "filter (\<lambda>y. f y = f x) xs = []"
      by (simp add: filter_empty_conv)
    with True show ?thesis by simp
  next
    case False
    with Cons.prems have "x \<in> set xs" "f a \<noteq> f x" "distinct (map f xs)"
      by (auto simp: image_iff)
    with Cons.IH show ?thesis by simp
  qed
qed

text \<open>Rounding stays within one half, keeps an integer and keeps the range 1 to 5.\<close>

lemma floor_half_near:
  fixes y :: rat
  assumes "z = \<lfloor>y + 1 / 2\<rfloor>"
  shows "of_int z \<le> y + 1 / 2" and "y - 1 / 2 < of_int z"
proof -
  show "of_int z \<le> y + 1 / 2"
    unfolding assms by (rule of_int_floor_le)
  have "y + 1 / 2 < of_int \<lfloor>y + 1 / 2\<rfloor> + 1"
    using floor_correct [of "y + 1 / 2"] by simp
  then show "y - 1 / 2 < of_int z"
    unfolding assms by linarith
qed

lemma sql_round_near: "\<bar>of_int (sql_round y) - y\<bar> \<le> 1 / 2"
proof (cases "0 \<le> y")
  case True
  define z where "z = \<lfloor>y + 1 / 2\<rfloor>"
  from True have r: "of_int (sql_round y) = (of_int z :: rat)"
    by (simp add: sql_round_def z_def)
  show ?thesis
    unfolding r using floor_half_near [OF z_def] by linarith
next
  case False
  define z where "z = \<lfloor>- y + 1 / 2\<rfloor>"
  from False have r: "of_int (sql_round y) = - (of_int z :: rat)"
    by (simp add: sql_round_def z_def)
  show ?thesis
    unfolding r using floor_half_near [OF z_def] by linarith
qed

lemma sql_round_of_int: "sql_round (of_int k) = k"
  by (simp add: sql_round_def floor_eq_iff)


lemma sql_avg_near:
  assumes "xs \<noteq> []" and "sql_avg xs = Some a"
  shows "\<bar>a - of_int (sum_list xs) / of_nat (length xs)\<bar> \<le> 1 / 20000"
proof -
  let ?m = "of_int (sum_list xs) / of_nat (length xs) :: rat"
  have a: "a = of_int (sql_round (?m * 10000)) / 10000"
    using assms by (simp add: sql_avg_def)
  have "\<bar>of_int (sql_round (?m * 10000)) - ?m * 10000\<bar> \<le> 1 / 2"
    by (rule sql_round_near)
  then have "\<bar>(of_int (sql_round (?m * 10000)) - ?m * 10000) / 10000\<bar> \<le> (1 / 2) / 10000"
    by (simp only: abs_divide) (simp add: divide_le_cancel)
  then show ?thesis
    unfolding a by (simp add: diff_divide_distrib)
qed

lemma sql_avg_exact:
  assumes "xs \<noteq> []" and "int (length xs) dvd sum_list xs * 10000"
  shows "sql_avg xs = Some (of_int (sum_list xs) / of_nat (length xs))"
proof -
  from assms(2) obtain k where k: "sum_list xs * 10000 = int (length xs) * k"
    by (auto simp: dvd_def)
  have n: "(of_nat (length xs) :: rat) \<noteq> 0"
    using assms(1) by simp
  have "(of_int (sum_list xs) * 10000 :: rat) = of_int (sum_list xs * 10000)"
    by simp
  also have "\<dots> = of_nat (length xs) * of_int k"
    by (simp only: k) simp
  finally have y: "(of_int (sum_list xs) * 10000 / of_nat (length xs) :: rat) = of_int k"
    using n by (simp add: field_simps)
  have "(of_int (sum_list xs) / of_nat (length xs) :: rat) = of_int k / 10000"
    using y n by (simp add: field_simps)
  then show ?thesis
    using assms(1) by (simp add: sql_avg_def y sql_round_of_int)
qed

subsection \<open>Aggregates of the book detail\<close>

text \<open>
  C1, as amended. For every existing book, \<open>getBookDetail\<close> answers 200 with
  \<^verbatim>\<open>total_reviews\<close> equal to the number of the book's reviews and \<^verbatim>\<open>average_rating\<close> equal
  to the mean of their ratings rounded to four decimal places: it differs from the mean
  by at most 0.00005 and is the mean whenever the count divides 10000 times the sum.
  With no review both are 0 (nothing is divided by zero); for the ratings 5, 3, 4 the
  average is 4.
\<close>

theorem getBookDetail_aggregates:
  assumes "b \<in> set (books d)" and "b_id b = i"
  shows "\<exists>book rs avg total.
           getBookDetail i d = ((200, BookDetail book rs avg total), d)
         \<and> total = length (filter (\<lambda>r. r_book_id r = i) (reviews d))
         \<and> (total = 0 \<longrightarrow> avg = 0)
         \<and> (total \<noteq> 0 \<longrightarrow>
              avg = of_int (sql_round
                      (of_int (sum_list (map r_rating (filter (\<lambda>r. r_book_id r = i) (reviews d))))
                         * 10000 / of_nat total)) / 10000
            \<and> \<bar>avg - of_int (sum_list (map r_rating (filter (\<lambda>r. r_book_id r = i) (reviews d))))
                        / of_nat total\<bar> \<le> 1 / 20000
            \<and> (int total dvd
                  sum_list (map r_rating (filter (\<lambda>r. r_book_id r = i) (reviews d))) * 10000 \<longrightarrow>
                avg = of_int (sum_list (map r_rating (filter (\<lambda>r. r_book_id r = i) (reviews d))))
                        / of_nat total))
         \<and> (map r_rating (filter (\<lambda>r. r_book_id r = i) (reviews d)) = [5, 3, 4] \<longrightarrow> avg = 4)"
proof -
  from assms have "filter (\<lambda>b. b_id b = i) (books d) \<noteq> []"
    by (auto simp: filter_empty_conv)
  then obtain book rest where bk: "filter (\<lambda>b. b_id b = i) (books d) = book # rest"
    by (cases "filter (\<lambda>b. b_id b = i) (books d)") auto
  let ?rs = "filter (\<lambda>r. r_book_id r = i) (reviews d)"
  let ?xs = "map r_rating ?rs"
  show ?thesis
  proof (cases "?rs = []")
    case True
    then show ?thesis
      using bk by (simp add: getBookDetail_def sql_avg_def Let_def)
  next
    case False
    then have ne: "?xs \<noteq> []" by simp
    define a where
      "a = (of_int (sql_round (of_int (sum_list ?xs) * 10000 / of_nat (length ?xs))) / 10000 :: rat)"
    have avg: "sql_avg ?xs = Some a"
      using ne by (simp add: sql_avg_def a_def)
    have near: "\<bar>a - of_int (sum_list ?xs) / of_nat (length ?rs)\<bar> \<le> 1 / 20000"
      using sql_avg_near [OF ne avg] by simp
    have exact: "int (length ?rs) dvd sum_list ?xs * 10000 \<Longrightarrow>
        a = of_int (sum_list ?xs) / of_nat (length ?rs)"
      using sql_avg_exact [OF ne] avg by simp
    have ex: "?xs = [5, 3, 4] \<Longrightarrow> a = 4"
    proof -
      assume e: "?xs = [5, 3, 4]"
      then have "length ?xs = 3" by simp
      with e show "a = 4"
        unfolding a_def by (simp add: sql_round_def floor_eq_iff)
    qed
    have resp: "\<exists>rs. getBookDetail i d = ((200, BookDetail book rs a (length ?rs)), d)"
      using bk False avg by (simp add: getBookDetail_def Let_def)
    have val: "a = of_int (sql_round (of_int (sum_list ?xs) * 10000 / of_nat (length ?rs))) / 10000"
      by (simp add: a_def)
    from resp obtain rs where
      "getBookDetail i d = ((200, BookDetail book rs a (length ?rs)), d)" ..
    with val near exact ex False show ?thesis
      by (intro exI [of _ book] exI [of _ rs] exI [of _ a] exI [of _ "length ?rs"]) simp
  qed
qed

theorem getBookDetail_aggregates_witness:
  "(\<exists>book rs. getBookDetail 1 example_db = ((200, BookDetail book rs 4 3), example_db))
 \<and> (\<exists>book rs. getBookDetail 2 example_db = ((200, BookDetail book rs 0 0), example_db))"
  using getBookDetail_aggregates [of "hd (books example_db)" example_db 1]
    getBookDetail_aggregates [of "hd (tl (books example_db))" example_db 2]
  by (simp add: example_db_def numeral_3_eq_3)

text \<open>C1, as stated, fails: for the ratings 5, 4 and 4 the answer carries 4.3333, which is
  not their mean 13/3.\<close>

theorem getBookDetail_mean_counterexample:
  "map r_rating (filter (\<lambda>r. r_book_id r = 1) (reviews example_db_544)) = [5, 4, 4]
 \<and> average_rating (snd (fst (getBookDetail 1 example_db_544))) = Some (43333 / 10000)
 \<and> total_reviews (snd (fst (getBookDetail 1 example_db_544))) = Some 3
 \<and> (43333 / 10000 :: rat) \<noteq> (5 + 4 + 4) / 3"
  by (simp add: example_db_544_def example_db_def getBookDetail_def sql_avg_def sql_round_def
      floor_eq_iff Let_def)

subsection \<open>One review per user and book\<close>



subsection \<open>Ownership of a review\<close>



subsection \<open>Validation of the rating\<close>







subsection \<open>The token guard and the admin routes\<close>

text \<open>
  C6, as amended. On every route behind \<open>verifyToken\<close>: when the authorization header is
  absent or empty the answer is 401 "Access token required"; when it is not empty and
  \<^verbatim>\<open>jwt.verify\<close> rejects the token (bad signature, malformed, expired) the answer is
  401 "Invalid token"; in both cases the handler is not run and the store is unchanged.
  On each admin route (list users, count reviews, create, update and delete a book) a
  verified token whose role is not \<^verbatim>\<open>'admin'\<close> is answered 403 with the store unchanged.
\<close>

theorem verifyToken_guard:
  "(falsy h \<longrightarrow> verifyToken K h handler d = ((401, Error ''Access token required''), d))
 \<and> (h = Some t \<and> t \<noteq> [] \<and> jwt_verify K t = None \<longrightarrow>
      verifyToken K h handler d = ((401, Error ''Invalid token''), d))
 \<and> (h = Some t \<and> t \<noteq> [] \<and> jwt_verify K t = Some u \<and> c_role u \<noteq> ''admin'' \<longrightarrow>
      route_getUsers K h d = ((403, Error ''Access denied. Admin privileges required.''), d)
    \<and> route_getReviewsCount K h d = ((403, Error ''Access denied. Admin privileges required.''), d)
    \<and> route_createBook K h bb d = ((403, Error ''Access denied. Admin privileges required.''), d)
    \<and> route_updateBook K h i bb d = ((403, Error ''Access denied. Admin privileges required.''), d)
    \<and> route_deleteBook K h i d = ((403, Error ''Access denied. Admin privileges required.''), d))"
  by (simp add: verifyToken_def route_getUsers_def route_getReviewsCount_def route_createBook_def
      route_updateBook_def route_deleteBook_def getUsers_def getReviewsCount_def createBook_def
      updateBook_def deleteBook_def)

theorem verifyToken_guard_witness:
  "route_getUsers example_services None example_db
     = ((401, Error ''Access token required''), example_db)
 \<and> route_getUsers example_services (Some ''garbage'') example_db
     = ((401, Error ''Invalid token''), example_db)
 \<and> route_deleteBook example_services (Some ''jwt.alice@example.com'') 1 example_db
     = ((403, Error ''Access denied. Admin privileges required.''), example_db)"
proof -
  have a: "falsy None" by simp
  have b: "Some ''garbage'' = Some ''garbage'' \<and> ''garbage'' \<noteq> []
           \<and> jwt_verify example_services ''garbage'' = None"
    by (simp add: example_services_def)
  have c: "Some ''jwt.alice@example.com'' = Some ''jwt.alice@example.com''
           \<and> ''jwt.alice@example.com'' \<noteq> []
           \<and> jwt_verify example_services ''jwt.alice@example.com'' = Some alice_claims
           \<and> c_role alice_claims \<noteq> ''admin''"
    by (simp add: example_services_def alice_claims_def)
  note g = verifyToken_guard [where K = example_services and d = example_db]
  from g [where h = None and handler = getUsers, THEN conjunct1, rule_format, OF a]
    g [where h = "Some ''garbage''" and t = "''garbage''" and handler = getUsers,
       THEN conjunct2, THEN conjunct1, rule_format, OF b]
    g [where h = "Some ''jwt.alice@example.com''" and t = "''jwt.alice@example.com''"
         and u = alice_claims and i = 1, THEN conjunct2, THEN conjunct2, rule_format, OF c]
  show ?thesis
    by (simp add: route_getUsers_def)
qed

text \<open>C6, as stated, fails: a request whose authorization header is present and empty
  carries a token that \<^verbatim>\<open>jwt.verify\<close> rejects, and is answered "Access token required",
  the answer for a missing token, not "Invalid token".\<close>

theorem verifyToken_empty_header_counterexample:
  "jwt_verify example_services [] = None
 \<and> route_getUsers example_services (Some []) example_db
     = ((401, Error ''Access token required''), example_db)"
  by (simp add: example_services_def verifyToken_def route_getUsers_def)

subsection \<open>Ownership of an image\<close>

text \<open>
  C7. For an existing image whose parent review exists, \<open>deleteImage\<close> removes the image
  exactly when the requester's id is the \<^verbatim>\<open>user_id\<close> of the review that the image's
  \<^verbatim>\<open>review_id\<close> names, or the requester is an admin; any other requester is answered 403
  and the store is unchanged. An image row has no owner column.
\<close>

theorem deleteImage_owner_or_admin:
  assumes "distinct (map i_id (images d))" and "distinct (map r_id (reviews d))"
    and "im \<in> set (images d)" and "i_id im = i"
    and "r \<in> set (reviews d)" and "r_id r = i_review_id im"
  shows "(r_user_id r = c_id user \<or> c_role user = ''admin'' \<longrightarrow>
            deleteImage i user d =
              ((200, Message ''Image deleted successfully''),
               d\<lparr>images := filter (\<lambda>x. i_id x \<noteq> i) (images d)\<rparr>))
       \<and> (\<not> (r_user_id r = c_id user \<or> c_role user = ''admin'') \<longrightarrow>
            deleteImage i user d =
              ((403, Error ''You can only delete images from your own reviews''), d))"
proof -
  have si: "filter (\<lambda>y. i_id y = i) (images d) = [im]"
    using select_by_key [OF assms(1) assms(3)] assms(4) by simp
  have sr: "filter (\<lambda>y. r_id y = i_review_id im) (reviews d) = [r]"
    using select_by_key [OF assms(2) assms(5)] assms(6) by simp
  show ?thesis
    using si sr by (simp add: deleteImage_def)
qed

theorem deleteImage_owner_or_admin_witness:
  "deleteImage 1 alice_claims example_db
     = ((200, Message ''Image deleted successfully''), example_db\<lparr>images := []\<rparr>)
 \<and> deleteImage 1 admin_claims example_db
     = ((200, Message ''Image deleted successfully''), example_db\<lparr>images := []\<rparr>)
 \<and> deleteImage 1 bob_claims example_db
     = ((403, Error ''You can only delete images from your own reviews''), example_db)"
proof -
  have h: "distinct (map i_id (images example_db))" "distinct (map r_id (reviews example_db))"
    "images example_db ! 0 \<in> set (images example_db)" "i_id (images example_db ! 0) = 1"
    "reviews example_db ! 1 \<in> set (reviews example_db)"
    "r_id (reviews example_db ! 1) = i_review_id (images example_db ! 0)"
    by (simp_all add: example_db_def)
  note t = deleteImage_owner_or_admin [OF h]
  from t [of alice_claims] t [of admin_claims] t [of bob_claims]
  show ?thesis
    by (simp add: example_db_def alice_claims_def admin_claims_def bob_claims_def)
qed

text \<open>
  C9. For an existing review and a requester who is neither its owner nor an admin,
  \<open>addImage\<close> inserts nothing and returns the store as it was. It answers 403 "You can
  only add images to your own reviews" for every request that carries an image URL; a
  request without one is answered 400 by the validation of the URL, which comes first.
\<close>

theorem addImage_owner_or_admin:
  assumes "distinct (map r_id (reviews d))" and "r \<in> set (reviews d)" and "r_id r = i"
    and "r_user_id r \<noteq> c_id user" and "c_role user \<noteq> ''admin''"
  shows "addImage i body user d =
           ((if falsy (im_image_url body)
             then (400, Error ''Image URL is required'')
             else (403, Error ''You can only add images to your own reviews'')), d)"
proof -
  have sel: "filter (\<lambda>y. r_id y = i) (reviews d) = [r]"
    using select_by_key [OF assms(1) assms(2)] assms(3) by simp
  show ?thesis
    using sel assms(4,5) by (cases "im_image_url body") (simp_all add: addImage_def)
qed

theorem addImage_owner_or_admin_witness:
  "addImage 2 \<lparr>im_image_url = Some ''https://example.com/x.png'', im_image_name = None\<rparr>
     bob_claims example_db
     = ((403, Error ''You can only add images to your own reviews''), example_db)"
proof -
  have h: "distinct (map r_id (reviews example_db))"
    "reviews example_db ! 1 \<in> set (reviews example_db)" "r_id (reviews example_db ! 1) = 2"
    "r_user_id (reviews example_db ! 1) \<noteq> c_id bob_claims" "c_role bob_claims \<noteq> ''admin''"
    by (simp_all add: example_db_def bob_claims_def)
  from addImage_owner_or_admin [OF h,
      of "\<lparr>im_image_url = Some ''https://example.com/x.png'', im_image_name = None\<rparr>"]
  show ?thesis by simp
qed

subsection \<open>Registration, login and the profile\<close>

text \<open>
  C8. A registration with name, email and password present and an email that no user has
  answers 201 and stores the user with role \<^verbatim>\<open>'user'\<close>; a login with the same email and
  password on the resulting store answers 200 with a token whose verified payload is the
  id, email, name and role \<^verbatim>\<open>'user'\<close> of the stored user. The services are any for which
  the hash of the password compares equal to it and the signed payload verifies to
  itself (the token has not expired).
\<close>

theorem register_then_login:
  assumes "reg_name body = Some n" and "n \<noteq> []"
    and "reg_email body = Some e" and "e \<noteq> []"
    and "reg_password body = Some p" and "p \<noteq> []"
    and "\<forall>u \<in> set (users d). u_email u \<noteq> e"
    and "bcrypt_compare K p (bcrypt_hash K p)"
    and "jwt_verify K (jwt_sign K \<lparr>c_id = next_user d, c_email = e, c_name = n, c_role = ''user''\<rparr>)
           = Some \<lparr>c_id = next_user d, c_email = e, c_name = n, c_role = ''user''\<rparr>"
  shows "\<exists>d' tok0 tok cl.
           register K body d = ((201, Session ''User registered successfully'' tok0 cl), d')
         \<and> login K \<lparr>login_email = Some e, login_password = Some p\<rparr> d'
             = ((200, Session ''Login successful'' tok cl), d')
         \<and> jwt_verify K tok = Some cl
         \<and> cl = \<lparr>c_id = next_user d, c_email = e, c_name = n, c_role = ''user''\<rparr>
         \<and> filter (\<lambda>u. u_email u = e) (users d')
             = [\<lparr>u_id = c_id cl, u_name = c_name cl, u_email = c_email cl,
                 u_password = bcrypt_hash K p, u_role = c_role cl\<rparr>]"
proof -
  have none: "filter (\<lambda>u. u_email u = e) (users d) = []"
    using assms(7) by (auto simp: filter_empty_conv)
  have ins: "insert_user n e (bcrypt_hash K p) d =
      Some (next_user d,
            d\<lparr>users := users d @ [\<lparr>u_id = next_user d, u_name = n, u_email = e,
                                    u_password = bcrypt_hash K p, u_role = ''user''\<rparr>],
              next_user := Suc (next_user d)\<rparr>)"
    using assms(7) by (auto simp: insert_user_def)
  show ?thesis
    using none ins assms(1-6,8,9) by (simp add: register_def login_def)
qed

theorem register_then_login_witness:
  "register example_services
      \<lparr>reg_name = Some ''Dave'', reg_email = Some ''dave@example.com'',
       reg_password = Some ''secret''\<rparr> example_db
     = ((201, Session ''User registered successfully'' ''jwt.dave@example.com'' dave_claims),
        example_db\<lparr>users := users example_db @
            [\<lparr>u_id = 4, u_name = ''Dave'', u_email = ''dave@example.com'',
              u_password = ''$2a$10$secret'', u_role = ''user''\<rparr>],
          next_user := 5\<rparr>)
 \<and> fst (login example_services
      \<lparr>login_email = Some ''dave@example.com'', login_password = Some ''secret''\<rparr>
      (snd (register example_services
         \<lparr>reg_name = Some ''Dave'', reg_email = Some ''dave@example.com'',
          reg_password = Some ''secret''\<rparr> example_db)))
     = (200, Session ''Login successful'' ''jwt.dave@example.com'' dave_claims)"
proof -
  let ?body = "\<lparr>reg_name = Some ''Dave'', reg_email = Some ''dave@example.com'',
                 reg_password = Some ''secret''\<rparr>"
  have h: "reg_name ?body = Some ''Dave''" "''Dave'' \<noteq> []"
    "reg_email ?body = Some ''dave@example.com''" "''dave@example.com'' \<noteq> []"
    "reg_password ?body = Some ''secret''" "''secret'' \<noteq> []"
    "\<forall>u \<in> set (users example_db). u_email u \<noteq> ''dave@example.com''"
    "bcrypt_compare example_services ''secret'' (bcrypt_hash example_services ''secret'')"
    "jwt_verify example_services
       (jwt_sign example_services
          \<lparr>c_id = next_user example_db, c_email = ''dave@example.com'', c_name = ''Dave'',
           c_role = ''user''\<rparr>)
       = Some \<lparr>c_id = next_user example_db, c_email = ''dave@example.com'', c_name = ''Dave'',
               c_role = ''user''\<rparr>"
    by (simp_all add: example_db_def example_services_def dave_claims_def)
  from register_then_login [OF h]
  show ?thesis
    by (auto simp: example_db_def example_services_def dave_claims_def register_def
        login_def insert_user_def)
qed

text \<open>
  C10. With emails unique in the store, \<open>updateProfile\<close> with the requester's present email
  is never answered "Email already taken": the query for the email excludes the
  requester's own id. With a name in the request it answers 200 and writes the name and
  the unchanged email to the requester's row.
\<close>

theorem updateProfile_same_email:
  assumes "distinct (map u_email (users d))"
    and "u \<in> set (users d)" and "u_id u = c_id user"
    and "prof_email body = Some (u_email u)"
  shows "fst (updateProfile body user d) \<noteq> (400, Error ''Email already taken'')
       \<and> (\<forall>n. prof_name body = Some n \<and> n \<noteq> [] \<and> u_email u \<noteq> [] \<longrightarrow>
            updateProfile body user d =
              ((200, Message ''Profile updated successfully''),
               d\<lparr>users := map (\<lambda>x. if u_id x = c_id user
                                     then x\<lparr>u_name := n, u_email := u_email u\<rparr> else x)
                              (users d)\<rparr>))"
proof -
  have only: "\<And>x. x \<in> set (users d) \<Longrightarrow> u_email x = u_email u \<Longrightarrow> x = u"
    using assms(1,2) by (meson distinct_map inj_onD)
  then have none: "filter (\<lambda>x. u_email x = u_email u \<and> u_id x \<noteq> c_id user) (users d) = []"
    using assms(3) by (auto simp: filter_empty_conv)
  have upd: "\<And>n. update_user (c_id user) n (u_email u) d =
      Some (d\<lparr>users := map (\<lambda>x. if u_id x = c_id user
                                 then x\<lparr>u_name := n, u_email := u_email u\<rparr> else x)
                          (users d)\<rparr>)"
    using only assms(3) by (auto simp: update_user_def)
  show ?thesis
    using none upd assms(4)
    by (cases "prof_name body") (simp_all add: updateProfile_def)
qed

theorem updateProfile_same_email_witness:
  "fst (updateProfile \<lparr>prof_name = Some ''Alice B'', prof_email = Some ''alice@example.com''\<rparr>
          alice_claims example_db)
     = (200, Message ''Profile updated successfully'')"
proof -
  have h: "distinct (map u_email (users example_db))"
    "users example_db ! 1 \<in> set (users example_db)"
    "u_id (users example_db ! 1) = c_id alice_claims"
    "prof_email \<lparr>prof_name = Some ''Alice B'', prof_email = Some ''alice@example.com''\<rparr>
       = Some (u_email (users example_db ! 1))"
    by (simp_all add: example_db_def alice_claims_def)
  have n: "prof_name \<lparr>prof_name = Some ''Alice B'', prof_email = Some ''alice@example.com''\<rparr>
       = Some ''Alice B'' \<and> ''Alice B'' \<noteq> [] \<and> u_email (users example_db ! 1) \<noteq> []"
    by (simp add: example_db_def)
  from updateProfile_same_email [OF h, THEN conjunct2, rule_format, OF n]
  show ?thesis by simp
qed

subsection \<open>The constraints are invariants\<close>

text \<open>The hypotheses on keys in the properties above are part of \<open>keys_ok\<close>. Both
  \<open>keys_ok\<close> and \<open>refs_ok\<close> hold of the example store and are kept by every handler.\<close>

lemma map_key_update:
  "(\<And>x. P x \<Longrightarrow> k (g x) = k x) \<Longrightarrow> map k (map (\<lambda>x. if P x then g x else x) xs) = map k xs"
  by (induction xs) auto

lemma distinct_map_update:
  assumes "distinct (map k xs)" and "distinct (map f xs)"
    and "\<forall>x \<in> set xs. k x \<noteq> a \<longrightarrow> f x \<noteq> e"
    and "\<And>x. f (g x) = e"
  shows "distinct (map f (map (\<lambda>x. if k x = a then g x else x) xs))"
  using assms
proof (induction xs)
  case Nil
  then show ?case by simp
next
  case (Cons y ys)
  then show ?case
    by (auto simp: image_iff)
qed

lemma keys_ok_example: "keys_ok example_db"
  by (simp add: keys_ok_def example_db_def)

lemma keys_ok_insert_user:
  "keys_ok d \<Longrightarrow> insert_user n e p d = Some (k, d') \<Longrightarrow> keys_ok d'"
  by (fastforce simp: keys_ok_def insert_user_def less_Suc_eq split: if_splits)

lemma keys_ok_update_user:
  assumes "keys_ok d" and "update_user uid n e d = Some d'"
    and "\<forall>u \<in> set (users d). u_id u \<noteq> uid \<longrightarrow> u_email u \<noteq> e"
  shows "keys_ok d'"
proof -
  let ?g = "\<lambda>u::user_row. u\<lparr>u_name := n, u_email := e\<rparr>"
  let ?us = "map (\<lambda>u. if u_id u = uid then ?g u else u) (users d)"
  from assms(2) have d': "d' = d\<lparr>users := ?us\<rparr>"
    by (simp add: update_user_def split: if_splits)
  have ids: "map u_id ?us = map u_id (users d)"
    by (rule map_key_update) simp
  have em: "distinct (map u_email ?us)"
    using assms(1,3) by (intro distinct_map_update) (simp_all add: keys_ok_def)
  have bound: "\<forall>u \<in> set ?us. u_id u < next_user d"
    using assms(1) by (auto simp: keys_ok_def)
  show ?thesis
    using assms(1) ids em bound unfolding d' keys_ok_def by (simp del: map_map)
qed

lemma keys_ok_insert_review:
  "keys_ok d \<Longrightarrow> insert_review J b u v t d = Some (k, d') \<Longrightarrow> keys_ok d'"
  by (fastforce simp: keys_ok_def insert_review_def less_Suc_eq split: if_splits option.splits)

lemma keys_ok_update_review:
  assumes "keys_ok d" and "update_review J rid v t d = Some d'"
  shows "keys_ok d'"
proof -
  obtain n where d': "d' = d \<or> d' = d\<lparr>reviews :=
      map (\<lambda>r. if r_id r = rid then r\<lparr>r_rating := n, r_review_text := t\<rparr> else r) (reviews d)\<rparr>"
    using assms(2) by (auto simp: update_review_def split: if_splits option.splits)
  let ?rs = "map (\<lambda>r. if r_id r = rid then r\<lparr>r_rating := n, r_review_text := t\<rparr> else r) (reviews d)"
  have ids: "map r_id ?rs = map r_id (reviews d)"
    by (rule map_key_update) simp
  have bound: "\<forall>r \<in> set ?rs. r_id r < next_review d"
    using assms(1) by (auto simp: keys_ok_def)
  show ?thesis
    using assms(1) d' ids bound unfolding keys_ok_def by (auto simp del: map_map)
qed

lemma keys_ok_delete_review: "keys_ok d \<Longrightarrow> keys_ok (delete_review rid d)"
  by (simp add: keys_ok_def delete_review_def distinct_map_filter)

lemma keys_ok_delete_book: "keys_ok d \<Longrightarrow> keys_ok (delete_book bid d)"
  by (simp add: keys_ok_def delete_book_def Let_def distinct_map_filter)

lemma keys_ok_insert_image:
  "keys_ok d \<Longrightarrow> insert_image r u n d = Some (k, d') \<Longrightarrow> keys_ok d'"
  by (fastforce simp: keys_ok_def insert_image_def less_Suc_eq split: if_splits)

lemma keys_ok_insert_book:
  "keys_ok d \<Longrightarrow> insert_book t a b d = Some (k, d') \<Longrightarrow> keys_ok d'"
  by (auto simp: keys_ok_def insert_book_def split: if_splits)

lemma keys_ok_update_book:
  "keys_ok d \<Longrightarrow> update_book i t a b d = Some d' \<Longrightarrow> keys_ok d'"
  by (auto simp: keys_ok_def update_book_def split: if_splits)

lemma keys_ok_register: "keys_ok d \<Longrightarrow> keys_ok (snd (register K body d))"
  by (auto simp: register_def split: option.splits dest: keys_ok_insert_user)

lemma keys_ok_updateProfile: "keys_ok d \<Longrightarrow> keys_ok (snd (updateProfile body user d))"
  by (auto simp: updateProfile_def filter_empty_conv split: option.splits
      intro: keys_ok_update_user)

lemma keys_ok_createBook: "keys_ok d \<Longrightarrow> keys_ok (snd (createBook body user d))"
  by (auto simp: createBook_def split: option.splits dest: keys_ok_insert_book)

lemma keys_ok_updateBook: "keys_ok d \<Longrightarrow> keys_ok (snd (updateBook i body user d))"
  by (auto simp: updateBook_def split: option.splits dest: keys_ok_update_book)

lemma keys_ok_deleteBook: "keys_ok d \<Longrightarrow> keys_ok (snd (deleteBook i user d))"
  by (simp add: deleteBook_def keys_ok_delete_book)

lemma keys_ok_createReview: "keys_ok d \<Longrightarrow> keys_ok (snd (createReview J i body user d))"
  by (auto simp: createReview_def Let_def split: option.splits dest: keys_ok_insert_review)

lemma keys_ok_updateReview: "keys_ok d \<Longrightarrow> keys_ok (snd (updateReview J i body user d))"
  by (auto simp: updateReview_def Let_def split: option.splits list.splits
      dest: keys_ok_update_review)

lemma keys_ok_deleteReview: "keys_ok d \<Longrightarrow> keys_ok (snd (deleteReview i user d))"
  by (auto simp: deleteReview_def keys_ok_delete_review split: list.splits)

lemma keys_ok_addImage: "keys_ok d \<Longrightarrow> keys_ok (snd (addImage i body user d))"
  by (auto simp: addImage_def split: option.splits list.splits dest: keys_ok_insert_image)

lemma keys_ok_deleteImage: "keys_ok d \<Longrightarrow> keys_ok (snd (deleteImage i user d))"
  by (auto simp: deleteImage_def keys_ok_def distinct_map_filter split: list.splits)

lemma keys_ok_verifyToken:
  "(\<And>u. keys_ok (snd (handler u d))) \<Longrightarrow> keys_ok d \<Longrightarrow> keys_ok (snd (verifyToken K h handler d))"
  by (auto simp: verifyToken_def split: option.splits)

lemma refs_ok_example: "refs_ok example_db"
  by (simp add: refs_ok_def example_db_def)

lemma refs_ok_insert_user:
  "refs_ok d \<Longrightarrow> insert_user n e p d = Some (k, d') \<Longrightarrow> refs_ok d'"
  by (fastforce simp: refs_ok_def insert_user_def split: if_splits)

lemma exists_key_cong:
  assumes "map k ys = map k xs"
  shows "(\<exists>y \<in> set ys. k y = a) \<longleftrightarrow> (\<exists>x \<in> set xs. k x = a)"
proof -
  have "(\<exists>y \<in> set ys. k y = a) \<longleftrightarrow> a \<in> set (map k ys)"
    by auto
  also have "\<dots> \<longleftrightarrow> a \<in> set (map k xs)"
    by (simp only: assms)
  also have "\<dots> \<longleftrightarrow> (\<exists>x \<in> set xs. k x = a)"
    by auto
  finally show ?thesis .
qed

lemma refs_ok_update_user:
  assumes "refs_ok d" and "update_user uid n e d = Some d'"
  shows "refs_ok d'"
proof -
  let ?us = "map (\<lambda>u. if u_id u = uid then u\<lparr>u_name := n, u_email := e\<rparr> else u) (users d)"
  from assms(2) have d': "d' = d\<lparr>users := ?us\<rparr>"
    by (simp add: update_user_def split: if_splits)
  have ids: "map u_id ?us = map u_id (users d)"
    by (rule map_key_update) simp
  show ?thesis
    using assms(1) unfolding d' refs_ok_def
    by (simp add: exists_key_cong [OF ids] del: set_map map_map)
qed

lemma refs_ok_insert_review:
  "refs_ok d \<Longrightarrow> insert_review J b u v t d = Some (k, d') \<Longrightarrow> refs_ok d'"
  by (fastforce simp: refs_ok_def insert_review_def split: if_splits option.splits)

lemma refs_ok_update_review:
  assumes "refs_ok d" and "update_review J rid v t d = Some d'"
  shows "refs_ok d'"
proof (cases "\<exists>r \<in> set (reviews d). r_id r = rid")
  case False
  then have same: "\<And>n. map (\<lambda>r. if r_id r = rid then r\<lparr>r_rating := n, r_review_text := t\<rparr> else r)
      (reviews d) = reviews d"
    by (simp add: map_idI)
  from assms(2) False have "d' = d"
    by (auto simp: update_review_def same split: option.splits if_splits)
  with assms(1) show ?thesis by simp
next
  case True
  from assms(2) True obtain n where sn: "sql_int J v = Some n"
    by (cases "sql_int J v") (auto simp: update_review_def)
  from assms(2) True sn have n: "1 \<le> n" "n \<le> 5"
    and d': "d' = d\<lparr>reviews :=
      map (\<lambda>r. if r_id r = rid then r\<lparr>r_rating := n, r_review_text := t\<rparr> else r) (reviews d)\<rparr>"
    by (auto simp: update_review_def split: if_splits)
  let ?rs = "map (\<lambda>r. if r_id r = rid then r\<lparr>r_rating := n, r_review_text := t\<rparr> else r) (reviews d)"
  have ids: "map r_id ?rs = map r_id (reviews d)"
    by (rule map_key_update) simp
  have pairs: "map (\<lambda>r. (r_user_id r, r_book_id r)) ?rs
      = map (\<lambda>r. (r_user_id r, r_book_id r)) (reviews d)"
    by (rule map_key_update) simp
  have rows: "\<forall>r \<in> set ?rs.
        (\<exists>b \<in> set (books d). b_id b = r_book_id r)
      \<and> (\<exists>u \<in> set (users d). u_id u = r_user_id r)
      \<and> 1 \<le> r_rating r \<and> r_rating r \<le> 5"
    using assms(1) n by (auto simp: refs_ok_def)
  show ?thesis
    using assms(1) rows pairs unfolding d' refs_ok_def
    by (simp add: exists_key_cong [OF ids] del: set_map map_map)
qed

lemma refs_ok_delete_review: "refs_ok d \<Longrightarrow> refs_ok (delete_review rid d)"
  by (fastforce simp: refs_ok_def delete_review_def distinct_map_filter)

lemma refs_ok_delete_book:
  assumes "refs_ok d"
  shows "refs_ok (delete_book bid d)"
proof -
  let ?gone = "map r_id (filter (\<lambda>r. r_book_id r = bid) (reviews d))"
  let ?rs = "filter (\<lambda>r. r_book_id r \<noteq> bid) (reviews d)"
  let ?bs = "filter (\<lambda>b. b_id b \<noteq> bid) (books d)"
  have kept: "\<And>r. r \<in> set (reviews d) \<Longrightarrow> r_id r \<notin> set ?gone \<Longrightarrow> r \<in> set ?rs"
    by auto
  have rows: "\<forall>r \<in> set ?rs.
        (\<exists>b \<in> set ?bs. b_id b = r_book_id r)
      \<and> (\<exists>u \<in> set (users d). u_id u = r_user_id r)
      \<and> 1 \<le> r_rating r \<and> r_rating r \<le> 5"
  proof
    fix r assume r: "r \<in> set ?rs"
    then have "r \<in> set (reviews d)" and nb: "r_book_id r \<noteq> bid" by simp_all
    with assms obtain b where "b \<in> set (books d)" "b_id b = r_book_id r"
      and rest: "(\<exists>u \<in> set (users d). u_id u = r_user_id r) \<and> 1 \<le> r_rating r \<and> r_rating r \<le> 5"
      unfolding refs_ok_def by blast
    with nb have "b \<in> set ?bs" by simp
    with \<open>b_id b = r_book_id r\<close> rest
    show "(\<exists>b \<in> set ?bs. b_id b = r_book_id r)
      \<and> (\<exists>u \<in> set (users d). u_id u = r_user_id r)
      \<and> 1 \<le> r_rating r \<and> r_rating r \<le> 5"
      by blast
  qed
  have pairs: "distinct (map (\<lambda>r. (r_user_id r, r_book_id r)) ?rs)"
    using assms by (simp add: refs_ok_def distinct_map_filter)
  have imgs: "\<forall>x \<in> set (filter (\<lambda>i. i_review_id i \<notin> set ?gone) (images d)).
      \<exists>r \<in> set ?rs. r_id r = i_review_id x"
  proof
    fix x assume x: "x \<in> set (filter (\<lambda>i. i_review_id i \<notin> set ?gone) (images d))"
    then have "x \<in> set (images d)" and ng: "i_review_id x \<notin> set ?gone" by simp_all
    with assms obtain r where r: "r \<in> set (reviews d)" "r_id r = i_review_id x"
      unfolding refs_ok_def by blast
    with ng have "r \<in> set ?rs" by (intro kept) simp_all
    with r show "\<exists>r \<in> set ?rs. r_id r = i_review_id x" by blast
  qed
  have cms: "\<forall>c \<in> set (filter (\<lambda>c. cm_review_id c \<notin> set ?gone) (comments d)).
      (\<exists>r \<in> set ?rs. r_id r = cm_review_id c) \<and> (\<exists>u \<in> set (users d). u_id u = cm_user_id c)"
  proof
    fix c assume c: "c \<in> set (filter (\<lambda>c. cm_review_id c \<notin> set ?gone) (comments d))"
    then have "c \<in> set (comments d)" and ng: "cm_review_id c \<notin> set ?gone" by simp_all
    with assms obtain r where r: "r \<in> set (reviews d)" "r_id r = cm_review_id c"
      and u: "\<exists>u \<in> set (users d). u_id u = cm_user_id c"
      unfolding refs_ok_def by blast
    with ng have "r \<in> set ?rs" by (intro kept) simp_all
    with r u show "(\<exists>r \<in> set ?rs. r_id r = cm_review_id c)
        \<and> (\<exists>u \<in> set (users d). u_id u = cm_user_id c)" by blast
  qed
  show ?thesis
    unfolding refs_ok_def delete_book_def Let_def
    using rows pairs imgs cms by simp
qed

lemma refs_ok_insert_image:
  "refs_ok d \<Longrightarrow> insert_image r u n d = Some (k, d') \<Longrightarrow> refs_ok d'"
  by (fastforce simp: refs_ok_def insert_image_def split: if_splits)

lemma refs_ok_insert_book:
  "refs_ok d \<Longrightarrow> insert_book t a b d = Some (k, d') \<Longrightarrow> refs_ok d'"
  by (fastforce simp: refs_ok_def insert_book_def split: if_splits)

lemma refs_ok_update_book:
  assumes "refs_ok d" and "update_book i t a b d = Some d'"
  shows "refs_ok d'"
proof -
  let ?bs = "map (\<lambda>x. if b_id x = i then book_of_body i t a b else x) (books d)"
  from assms(2) have d': "d' = d\<lparr>books := ?bs\<rparr>"
    by (simp add: update_book_def split: if_splits)
  have ids: "map b_id ?bs = map b_id (books d)"
    by (rule map_key_update) (simp add: book_of_body_def)
  show ?thesis
    using assms(1) unfolding d' refs_ok_def
    by (simp add: exists_key_cong [OF ids] del: set_map map_map)
qed

lemma refs_ok_register: "refs_ok d \<Longrightarrow> refs_ok (snd (register K body d))"
  by (auto simp: register_def split: option.splits dest: refs_ok_insert_user)

lemma refs_ok_updateProfile: "refs_ok d \<Longrightarrow> refs_ok (snd (updateProfile body user d))"
  by (auto simp: updateProfile_def split: option.splits dest: refs_ok_update_user)

lemma refs_ok_createBook: "refs_ok d \<Longrightarrow> refs_ok (snd (createBook body user d))"
  by (auto simp: createBook_def split: option.splits dest: refs_ok_insert_book)

lemma refs_ok_updateBook: "refs_ok d \<Longrightarrow> refs_ok (snd (updateBook i body user d))"
  by (auto simp: updateBook_def split: option.splits dest: refs_ok_update_book)

lemma refs_ok_deleteBook: "refs_ok d \<Longrightarrow> refs_ok (snd (deleteBook i user d))"
  by (simp add: deleteBook_def refs_ok_delete_book)

lemma refs_ok_createReview: "refs_ok d \<Longrightarrow> refs_ok (snd (createReview J i body user d))"
  by (auto simp: createReview_def Let_def split: option.splits dest: refs_ok_insert_review)

lemma refs_ok_updateReview: "refs_ok d \<Longrightarrow> refs_ok (snd (updateReview J i body user d))"
  by (auto simp: updateReview_def Let_def split: option.splits list.splits
      dest: refs_ok_update_review)

lemma refs_ok_deleteReview: "refs_ok d \<Longrightarrow> refs_ok (snd (deleteReview i user d))"
  by (auto simp: deleteReview_def refs_ok_delete_review split: list.splits)

lemma refs_ok_addImage: "refs_ok d \<Longrightarrow> refs_ok (snd (addImage i body user d))"
  by (auto simp: addImage_def split: option.splits list.splits dest: refs_ok_insert_image)

lemma refs_ok_deleteImage: "refs_ok d \<Longrightarrow> refs_ok (snd (deleteImage i user d))"
  by (auto simp: deleteImage_def refs_ok_def split: list.splits)

end
